theory Spec2Isabelle
  imports Main
begin

section \<open>Python values used by the scripts\<close>

text \<open>
  A Python \<open>str\<close> is a sequence of code points; it is modelled by \<open>string\<close> with one
  \<open>char\<close> per code point (code points up to 255). Python's unbounded \<open>int\<close> is \<open>int\<close>.
\<close>

definition nl :: string where
  "nl = [CHR 0x0A]"

text \<open>\<open>str(n)\<close> for an integer: decimal digits, with a leading minus sign below zero.\<close>

fun str_nat :: "nat \<Rightarrow> string" where
  "str_nat n =
     (if n < 10 then [''0123456789'' ! n]
      else str_nat (n div 10) @ [''0123456789'' ! (n mod 10)])"

declare str_nat.simps [simp del]

definition str_int :: "int \<Rightarrow> string" where
  "str_int i = (if i < 0 then ''-'' @ str_nat (nat (- i)) else str_nat (nat i))"

definition is_digit :: "char \<Rightarrow> bool" where
  "is_digit c = (c \<in> set ''0123456789'')"

definition digit_val :: "char \<Rightarrow> nat" where
  "digit_val c = of_char c - 48"

text \<open>
  The characters \<open>str.strip()\<close> and \<open>int()\<close> treat as whitespace (tab, line feed,
  vertical tab, form feed, carriage return, the four separators 0x1C..0x1F, space,
  0x85 and the no-break space).
\<close>

definition is_space :: "char \<Rightarrow> bool" where
  "is_space c =
     (c \<in> set [CHR 0x09, CHR 0x0A, CHR 0x0B, CHR 0x0C, CHR 0x0D, CHR 0x1C, CHR 0x1D,
               CHR 0x1E, CHR 0x1F, CHR 0x20, CHR 0x85, CHR 0xA0])"

definition py_strip :: "string \<Rightarrow> string" where
  "py_strip s = rev (dropWhile is_space (rev (dropWhile is_space s)))"

text \<open>
  \<open>int(s)\<close> on a string: surrounding whitespace is dropped, one sign is allowed, then
  decimal digits, where single underscores may separate digits. \<open>None\<close> is the
  \<open>ValueError\<close>.
\<close>

fun int_body :: "bool \<Rightarrow> nat \<Rightarrow> string \<Rightarrow> nat option" where
  "int_body after_digit acc [] = (if after_digit then Some acc else None)"
| "int_body after_digit acc (c # cs) =
     (if is_digit c then int_body True (10 * acc + digit_val c) cs
      else if c = CHR ''_'' \<and> after_digit \<and> cs \<noteq> [] \<and> is_digit (hd cs)
        then int_body False acc cs
      else None)"

definition py_int :: "string \<Rightarrow> int option" where
  "py_int s =
     (case py_strip s of
        [] \<Rightarrow> None
      | c # cs \<Rightarrow>
          if c = CHR ''-'' then map_option (\<lambda>n. - int n) (int_body False 0 cs)
          else if c = CHR ''+'' then map_option int (int_body False 0 cs)
          else map_option int (int_body False 0 (c # cs)))"

text \<open>\<open>s.isdecimal()\<close>: at least one character, all of them decimal digits.\<close>

definition isdecimal :: "string \<Rightarrow> bool" where
  "isdecimal s = (s \<noteq> [] \<and> list_all is_digit s)"

section \<open>fibonacci.py\<close>

text \<open>
  The inner \<open>while True\<close> of lines 37 to 50. The variables are \<open>secondTolastNumber\<close>,
  \<open>lastNumber\<close>, \<open>fibNumbeCalculated\<close> and \<open>nth\<close>; the last argument is the text
  printed so far. The loop leaves only when the counter meets \<open>nth\<close>, so it is a
  partial function: \<open>None\<close> is the run that never ends.
\<close>

partial_function (option) fib_loop :: "int \<Rightarrow> int \<Rightarrow> int \<Rightarrow> int \<Rightarrow> string \<Rightarrow> string option" where
  "fib_loop secondTolastNumber lastNumber fibNumbeCalculated nth' out =
     (let nextNumber = secondTolastNumber + lastNumber;
          fibNumbeCalculated = fibNumbeCalculated + 1;
          out = out @ str_int nextNumber
      in if fibNumbeCalculated = nth'
         then Some (out @ nl @ nl @ ''The #'' @ str_int fibNumbeCalculated @ ''Fibonacci''
                      @ ''number is '' @ str_int nextNumber @ nl)
         else fib_loop lastNumber nextNumber fibNumbeCalculated nth' (out @ '', ''))"

declare fib_loop.simps [code]

datatype fib_end = Quit | EOFError

definition fib_prompt :: string where
  "fib_prompt = ''Enter the Nth Fibonacci number you wish to'' @ nl
     @ ''calculate (such as 5, 50, 1000) or QUIT to quit:'' @ nl @ ''> ''"

text \<open>
  The whole program on the lines typed at the prompts: the text written to standard
  output and how the process ends (\<open>sys.exit()\<close> after \<open>quit\<close>, or the \<open>EOFError\<close> of
  \<open>input\<close> when no line is left). \<open>None\<close>: the number loop never returns.
\<close>

fun fibonacci :: "string list \<Rightarrow> (string \<times> fib_end) option" where
  "fibonacci [] = Some (fib_prompt, EOFError)"
| "fibonacci (response # rest) =
     (if response = ''quit'' then Some (fib_prompt @ ''Thanks for playing!'' @ nl, Quit)
      else if isdecimal response \<and> py_int response \<noteq> Some 0 then
        (case py_int response of
           None \<Rightarrow> None
         | Some nth' \<Rightarrow>
             if nth' = 1 then
               map_option (\<lambda>(out, e). (fib_prompt @ nl @ ''0'' @ nl @ nl
                     @ ''The #1 Fibonacci number is 0.'' @ nl @ out, e)) (fibonacci rest)
             else if nth' = 2 then
               map_option (\<lambda>(out, e). (fib_prompt @ nl @ ''o, 1'' @ nl @ nl
                     @ ''The #2 Fibonacci number is 1.'' @ nl @ out, e)) (fibonacci rest)
             else if nth' \<ge> 10000 then
               (case rest of
                  [] \<Rightarrow> Some (fib_prompt @ nl
                          @ ''This will take a while to display on the screen.'' @ nl
                          @ ''press Enter to begin.......'', EOFError)
                | _ # rest' \<Rightarrow>
                    (case fib_loop 0 1 2 nth' ''o, 1, '' of
                       None \<Rightarrow> None
                     | Some shown \<Rightarrow>
                         map_option (\<lambda>(out, e). (fib_prompt @ nl
                             @ ''This will take a while to display on the screen.'' @ nl
                             @ ''press Enter to begin.......'' @ shown @ out, e))
                           (fibonacci rest')))
             else
               (case fib_loop 0 1 2 nth' ''o, 1, '' of
                  None \<Rightarrow> None
                | Some shown \<Rightarrow>
                    map_option (\<lambda>(out, e). (fib_prompt @ nl @ shown @ out, e))
                      (fibonacci rest)))
      else
        map_option (\<lambda>(out, e). (fib_prompt @ ''Please enter a number greater than 0.'' @ nl
              @ out, e)) (fibonacci rest))"

section \<open>String operations of the browsers\<close>

definition py_lower_char :: "char \<Rightarrow> char" where
  "py_lower_char c =
     (let n = (of_char c :: nat)
      in if (65 \<le> n \<and> n \<le> 90) \<or> (192 \<le> n \<and> n \<le> 222 \<and> n \<noteq> 215) then char_of (n + 32)
         else c)"

definition py_lower :: "string \<Rightarrow> string" where
  "py_lower s = map py_lower_char s"

text \<open>
  \<open>s.splitlines()\<close>: the line boundaries are line feed, carriage return (with a line
  feed after it as one boundary), vertical tab, form feed, 0x1C, 0x1D, 0x1E and 0x85.
  The first argument is the line read so far.
\<close>

definition is_linebreak :: "char \<Rightarrow> bool" where
  "is_linebreak c =
     (c \<in> set [CHR 0x0A, CHR 0x0D, CHR 0x0B, CHR 0x0C, CHR 0x1C, CHR 0x1D, CHR 0x1E, CHR 0x85])"

fun splitlines_from :: "string \<Rightarrow> string \<Rightarrow> string list" where
  "splitlines_from cur [] = (if cur = [] then [] else [cur])"
| "splitlines_from cur [c] =
     (if is_linebreak c then [cur] else [cur @ [c]])"
| "splitlines_from cur (c # d # cs) =
     (if c = CHR 0x0D \<and> d = CHR 0x0A then cur # splitlines_from [] cs
      else if is_linebreak c then cur # splitlines_from [] (d # cs)
      else splitlines_from (cur @ [c]) (d # cs))"

definition splitlines :: "string \<Rightarrow> string list" where
  "splitlines s = splitlines_from [] s"

text \<open>\<open>sep.join(xs)\<close>.\<close>

fun join :: "string \<Rightarrow> string list \<Rightarrow> string" where
  "join sep [] = []"
| "join sep [x] = x"
| "join sep (x # y # ys) = x @ sep @ join sep (y # ys)"

text \<open>\<open>sub in s\<close> for strings.\<close>

definition starts_with :: "string \<Rightarrow> string \<Rightarrow> bool" where
  "starts_with s p = (take (length p) s = p)"

fun contains :: "string \<Rightarrow> string \<Rightarrow> bool" where
  "contains [] sub = (sub = [])"
| "contains (c # cs) sub = (starts_with (c # cs) sub \<or> contains cs sub)"

text \<open>\<open>s.split(' ')[0]\<close>: the text before the first space.\<close>

definition first_token :: "string \<Rightarrow> string" where
  "first_token s = takeWhile (\<lambda>c. c \<noteq> CHR '' '') s"

text \<open>
  \<open>re.sub(r'^[^0-9]*  ', '', s)\<close>: the pattern is anchored at the start, so it matches
  at most once: a run of characters other than digits, as long as possible, and two
  spaces. The spaces lie in the initial run of non-digits; the match ends at the last
  pair of spaces there.
\<close>

definition sub_label_prefix :: "string \<Rightarrow> string" where
  "sub_label_prefix s =
     (let q = takeWhile (\<lambda>c. \<not> is_digit c) s;
          ends = filter (\<lambda>i. q ! i = CHR '' '' \<and> q ! (i + 1) = CHR '' '') [0 ..< length q - 1]
      in if ends = [] then s else drop (last ends + 2) s)"

text \<open>
  \<open>re.sub(r'.  ', '', s)\<close>: every match from left to right, without overlap, of one
  character other than a line feed and two spaces.
\<close>

fun sub_icon :: "string \<Rightarrow> string" where
  "sub_icon (c # d # e # rest) =
     (if c \<noteq> CHR 0x0A \<and> d = CHR '' '' \<and> e = CHR '' '' then sub_icon rest
      else c # sub_icon (d # e # rest))"
| "sub_icon s = s"

text \<open>\<open>re.sub(r'^[0-9]+ ', '', s)\<close>: a leading run of digits and the space after it.\<close>

definition sub_number_prefix :: "string \<Rightarrow> string" where
  "sub_number_prefix s =
     (let ds = takeWhile is_digit s; r = dropWhile is_digit s
      in if ds \<noteq> [] \<and> r \<noteq> [] \<and> hd r = CHR '' '' then tl r else s)"

text \<open>
  \<open>re.sub(r'\x1B(?:[@-Z\\-_]|\[[0-?]*[ -/]*[@-~])', '', s)\<close>: the escape sequences that
  \<open>launcher\<close> removes before the options reach rofi. The three classes of the second
  alternative are disjoint, so the greedy match is the only one.
\<close>

definition in_range :: "nat \<Rightarrow> nat \<Rightarrow> char \<Rightarrow> bool" where
  "in_range lo hi c = (lo \<le> (of_char c :: nat) \<and> (of_char c :: nat) \<le> hi)"

definition escape_rest :: "string \<Rightarrow> string option" where
  "escape_rest cs =
     (case cs of
        [] \<Rightarrow> None
      | d # ds \<Rightarrow>
          if in_range 0x40 0x5A d \<or> in_range 0x5C 0x5F d then Some ds
          else if d = CHR ''['' then
            (case dropWhile (in_range 0x20 0x2F) (dropWhile (in_range 0x30 0x3F) ds) of
               [] \<Rightarrow> None
             | f # fs \<Rightarrow> if in_range 0x40 0x7E f then Some fs else None)
          else None)"

lemma escape_rest_length: "escape_rest cs = Some r \<Longrightarrow> length r < Suc (length cs)"
proof -
  assume a: "escape_rest cs = Some r"
  then obtain d ds where cs: "cs = d # ds"
    by (cases cs) (auto simp: escape_rest_def)
  from a cs consider (short) "r = ds"
    | (csi) f where "dropWhile (in_range 0x20 0x2F) (dropWhile (in_range 0x30 0x3F) ds) = f # r"
    by (auto simp: escape_rest_def split: if_splits list.splits)
  then have "length r \<le> length ds"
  proof cases
    case short
    then show ?thesis by simp
  next
    case csi
    have "length (dropWhile (in_range 0x20 0x2F) (dropWhile (in_range 0x30 0x3F) ds)) \<le> length ds"
      by (meson length_dropWhile_le order_trans)
    with csi show ?thesis by simp
  qed
  with cs show ?thesis by simp
qed

function strip_escapes :: "string \<Rightarrow> string" where
  "strip_escapes [] = []"
| "strip_escapes (c # cs) =
     (if c = CHR 0x1B then
        (case escape_rest cs of
           Some r \<Rightarrow> strip_escapes r
         | None \<Rightarrow> c # strip_escapes cs)
      else c # strip_escapes cs)"
  by pat_completeness auto
termination
  by (relation "measure length") (auto dest: escape_rest_length)

text \<open>\<open>xs[i]\<close> for a list: a negative index counts from the end; \<open>None\<close> is the \<open>IndexError\<close>.\<close>

definition py_index :: "'a list \<Rightarrow> int \<Rightarrow> 'a option" where
  "py_index xs i =
     (let n = int (length xs); j = (if i < 0 then n + i else i)
      in if 0 \<le> j \<and> j < n then Some (xs ! nat j) else None)"

section \<open>The YouTube browsers: data, configuration and effects\<close>

text \<open>
  The \<open>CONFIG\<close> dictionary and the module constants a browsing session reads.
  \<open>NO_OF_SEARCH_RESULTS\<close> is the value of \<open>int(CONFIG["NO_OF_SEARCH_RESULTS"])\<close>, which
  \<open>load_config\<close> has evaluated before any session starts. \<open>shlex_PREFERRED_BROWSER\<close> is
  the list \<open>shlex.split(CONFIG["PREFERRED_BROWSER"])\<close>, and \<open>which_gum\<close> is the truth
  value of \<open>shutil.which("gum")\<close>. \<open>ROFI_THEME\<close> is \<open>None\<close> when the dictionary has no such
  key: the defaults of yt-browser4 hold it (as the empty string), the defaults of
  yt-browser2 do not, so there it is present only when the configuration file sets it.
  \<open>SHELL\<close> is \<open>os.environ.get("SHELL", "/bin/bash")\<close>, and \<open>generate_sha256\<close> is the
  hexadecimal SHA-256 digest of \<open>hashlib\<close>, a parameter here.
\<close>

record config =
  PREFERRED_SELECTOR :: string
  ENABLE_PREVIEW :: string
  PLAYER :: string
  PREFERRED_BROWSER :: string
  shlex_PREFERRED_BROWSER :: "string list"
  NO_OF_SEARCH_RESULTS :: int
  ROFI_THEME :: "string option"
  DISOWN_STREAMING_PROCESS :: string
  VIDEO_QUALITY :: string
  DOWNLOAD_DIRECTORY :: string
  UPDATE_RECENT :: string
  PLATFORM :: string
  USER :: string
  which_gum :: bool
  CLI_HEADER :: string
  CLI_NAME :: string
  CLI_PREVIEW_DISPATCHER :: string
  CLI_AUTO_GEN_PLAYLISTS :: string
  SHELL :: string
  generate_sha256 :: "string \<Rightarrow> string"
  CYAN :: string
  RED :: string
  MAGENTA :: string
  RESET :: string

text \<open>
  Every icon of a menu label is one code point of the private use area, beyond the
  range of \<open>char\<close>; the labels carry the placeholder \<open>glyph\<close> in its place.
\<close>

definition glyph :: string where
  "glyph = [CHR 0xFF]"

datatype exn = FileNotFoundError | KeyError | TypeError | AttributeError | IndexError

text \<open>
  What the scripts do to the outside world, in order: text on standard error and
  standard output, \<open>time.sleep\<close>, \<open>os.system('clear')\<close>, a selector started with
  \<open>Popen\<close> and fed through \<open>communicate\<close> (command, input), \<open>subprocess.run\<close> of a
  command, \<open>subprocess.Popen\<close> of a command with its \<open>start_new_session\<close> flag, and the
  steps whose contents are files (named by the function that writes them).
\<close>

datatype event =
    Stderr string
  | Stdout string
  | Sleep
  | Clear
  | Popen_communicate "string list" string
  | Subprocess_run "string list"
  | Popen "string list" bool
  | File_step string

text \<open>The module's global state: the window bounds, and the effects so far.\<close>

record globals =
  PLAYLIST_START :: int
  PLAYLIST_END :: int
  trace :: "event list"

text \<open>yt-browser2 adds the two toggles.\<close>

record globals2 = globals +
  AUDIO_ONLY_MODE :: bool
  AUTOPLAY_MODE :: bool

definition log :: "event \<Rightarrow> 'a globals_scheme \<Rightarrow> 'a globals_scheme" where
  "log e g = g\<lparr>trace := trace g @ [e]\<rparr>"

text \<open>
  \<open>send_notification\<close>: the message on standard error, then the sleep of
  \<open>NOTIFICATION_DURATION\<close> seconds.
\<close>

definition send_notification :: "string \<Rightarrow> 'a globals_scheme \<Rightarrow> 'a globals_scheme" where
  "send_notification message g = log Sleep (log (Stderr (message @ nl)) g)"

text \<open>
  An entry of a fetched page, with the keys the session reads. In a page an entry can
  be \<open>null\<close> (\<open>None\<close>). The value \<open>run_yt_dlp\<close> returns is Python's \<open>None\<close> or a dictionary,
  which has the key \<open>entries\<close> or not (a dictionary without it stands for any other
  non-empty dictionary).
\<close>

record entry =
  title :: string
  url :: string
  video_id :: string

datatype search_results = NoneResult | Dict "entry option list option"

text \<open>\<open>not search_results or "entries" not in search_results\<close>\<close>

definition no_entries :: "search_results \<Rightarrow> bool" where
  "no_entries r = (case r of NoneResult \<Rightarrow> True | Dict None \<Rightarrow> True | Dict (Some es) \<Rightarrow> False)"

text \<open>\<open>search_results.get("entries", [])\<close>\<close>

definition get_entries :: "search_results \<Rightarrow> entry option list" where
  "get_entries r = (case r of Dict (Some es) \<Rightarrow> es | _ \<Rightarrow> [])"

text \<open>
  The answers of the outside world. A selector or player that is started either runs
  or is not installed (\<open>FileNotFoundError\<close>). The metadata tool gives a return code and
  a standard output, which stands here as what \<open>json.loads\<close> makes of it: a
  \<open>JSONDecodeError\<close> or the parsed value.
\<close>

datatype selector_out = Selector_missing | Selector_stdout string

datatype spawn = Spawned | Not_found

datatype payload = Unparseable | Parsed search_results

datatype fetch_result = Fetch_not_found | Fetch_done int payload

text \<open>
  How a call of \<open>playlist_explorer\<close> ends: it returns (\<open>None\<close> or the string
  \<open>"Main Menu"\<close>), the process exits through \<open>sys.exit\<close>, an exception leaves it, or
  it waits for an answer of the outside world that the script of answers does not hold.
\<close>

datatype 'g outcome =
    is_Returned: Returned "string option" (final: 'g)
  | is_Exited: Exited int (final: 'g)
  | is_Raised: Raised exn (final: 'g)
  | is_Blocked: Blocked (final: 'g)

section \<open>launcher and run\_yt\_dlp (the same text in both browsers)\<close>

definition truthy :: "string option \<Rightarrow> bool" where
  "truthy preview_mode = (case preview_mode of None \<Rightarrow> False | Some m \<Rightarrow> m \<noteq> [])"

definition launcher ::
  "config \<Rightarrow> string \<Rightarrow> string \<Rightarrow> string option \<Rightarrow> selector_out \<Rightarrow> 'a globals_scheme
     \<Rightarrow> (exn + string) \<times> 'a globals_scheme" where
  "launcher cfg options_str prompt_text preview_mode answer g =
     (let selector = py_lower (PREFERRED_SELECTOR cfg)
      in if selector = ''rofi'' then
           (case ROFI_THEME cfg of
              None \<Rightarrow> (Inl KeyError, g)
            | Some theme \<Rightarrow>
                let cmd = [''rofi'', ''-sort'', ''-matching'', ''fuzzy'', ''-dmenu'', ''-i'', ''-p'', [],
                           ''-mesg'', prompt_text, ''-matching'', ''fuzzy'', ''-sorting-method'', ''fzf''];
                    cmd = (if theme \<noteq> [] then hd cmd # [''-no-config'', ''-theme'', theme] @ tl cmd
                           else cmd @ [''-width'', ''1500'']);
                    clean_options = strip_escapes options_str;
                    g = log (Popen_communicate cmd clean_options) g
                in (case answer of
                      Selector_missing \<Rightarrow> (Inl FileNotFoundError, g)
                    | Selector_stdout out \<Rightarrow>
                        let res = py_strip out
                        in (Inr (if res \<noteq> [] then res else ''Exit''), g)))
         else
           (let cmd = [''fzf'', ''--info=hidden'', ''--layout=reverse'', ''--height=100%'',
                       ''--prompt='' @ prompt_text @ '': '', ''--header-first'',
                       ''--header='' @ CLI_HEADER cfg, ''--exact'', ''--cycle'', ''--ansi''];
                cmd = (if truthy preview_mode then
                         cmd @ [''--preview-window=left,35%,wrap'', ''--bind=right:accept'',
                                ''--expect=shift-left,shift-right'', ''--tabstop=1'',
                                ''--preview=bash '' @ [CHR 0x27] @ CLI_PREVIEW_DISPATCHER cfg
                                  @ [CHR 0x27] @ '' '' @ [CHR 0x27] @ the preview_mode
                                  @ [CHR 0x27] @ '' {}'']
                       else cmd);
                g = log (Popen_communicate cmd options_str) g
            in (case answer of
                  Selector_missing \<Rightarrow> (Inl FileNotFoundError, g)
                | Selector_stdout out \<Rightarrow>
                    let lines = splitlines out
                    in if lines = [] then (Inr [], g)
                       else if truthy preview_mode \<and> length lines \<ge> 2 then (Inr (lines ! 1), g)
                       else (Inr (lines ! 0), g))))"

text \<open>The command that \<open>run_yt_dlp\<close> builds (lines 421 to 428 of yt-browser4).\<close>

definition yt_dlp_cmd :: "config \<Rightarrow> string \<Rightarrow> string list \<Rightarrow> 'a globals_scheme \<Rightarrow> string list" where
  "yt_dlp_cmd cfg url' extra_args g =
     (let cmd = [''yt-dlp'', url', ''-J'', ''--flat-playlist'', ''--extractor-args'',
                 ''youtubetab:approximate_date'',
                 ''--playlist-start'', str_int (PLAYLIST_START g),
                 ''--playlist-end'', str_int (PLAYLIST_END g)];
          cmd = (if PREFERRED_BROWSER cfg \<noteq> [] then cmd @ shlex_PREFERRED_BROWSER cfg else cmd);
          cmd = (if extra_args \<noteq> [] then cmd @ extra_args else cmd)
      in cmd)"

definition run_yt_dlp ::
  "config \<Rightarrow> string \<Rightarrow> string list \<Rightarrow> fetch_result \<Rightarrow> 'a globals_scheme
     \<Rightarrow> (exn + search_results) \<times> 'a globals_scheme" where
  "run_yt_dlp cfg url' extra_args answer g =
     (let cmd = yt_dlp_cmd cfg url' extra_args g;
          g = (if which_gum cfg
               then log (Subprocess_run ([''gum'', ''spin'', ''--show-output'', ''--''] @ cmd)) g
               else log (Subprocess_run cmd) (log (Stderr (''Loading...'' @ nl)) g))
      in case answer of
           Fetch_not_found \<Rightarrow> (Inl FileNotFoundError, g)
         | Fetch_done returncode out \<Rightarrow>
             if returncode \<noteq> 0 then (Inr NoneResult, send_notification ''Failed to fetch data : ('' g)
             else (case out of
                     Parsed r \<Rightarrow> (Inr r, g)
                   | Unparseable \<Rightarrow> (Inr NoneResult, g)))"

section \<open>The window of playlist\_explorer\<close>

text \<open>The two assignments of the \<open>Next\<close> branch (and of the autoplay page turn).\<close>

definition window_next :: "config \<Rightarrow> 'a globals_scheme \<Rightarrow> 'a globals_scheme" where
  "window_next cfg g =
     g\<lparr>PLAYLIST_START := PLAYLIST_START g + NO_OF_SEARCH_RESULTS cfg,
       PLAYLIST_END := PLAYLIST_END g + NO_OF_SEARCH_RESULTS cfg\<rparr>"

text \<open>The \<open>Previous\<close> branch of yt-browser4 (lines 627 to 630).\<close>

definition window_previous4 :: "config \<Rightarrow> 'a globals_scheme \<Rightarrow> 'a globals_scheme" where
  "window_previous4 cfg g =
     (let start = PLAYLIST_START g - NO_OF_SEARCH_RESULTS cfg;
          start = (if start \<le> 0 then 1 else start);
          end' = PLAYLIST_END g - NO_OF_SEARCH_RESULTS cfg;
          end' = (if end' \<le> NO_OF_SEARCH_RESULTS cfg then NO_OF_SEARCH_RESULTS cfg else end')
      in g\<lparr>PLAYLIST_START := start, PLAYLIST_END := end'\<rparr>)"

text \<open>The \<open>Previous\<close> branch of yt-browser2 (lines 464 to 468).\<close>

definition window_previous2 :: "config \<Rightarrow> 'a globals_scheme \<Rightarrow> 'a globals_scheme" where
  "window_previous2 cfg g =
     (let start = PLAYLIST_START g - NO_OF_SEARCH_RESULTS cfg;
          start = (if start \<le> 0 then 1 else start);
          end' = PLAYLIST_END g - NO_OF_SEARCH_RESULTS cfg;
          min_end = NO_OF_SEARCH_RESULTS cfg;
          end' = (if end' < min_end then min_end else end')
      in g\<lparr>PLAYLIST_START := start, PLAYLIST_END := end'\<rparr>)"

text \<open>The two assignments after the loop of \<open>playlist_explorer\<close>.\<close>

definition window_reset :: "config \<Rightarrow> 'a globals_scheme \<Rightarrow> 'a globals_scheme" where
  "window_reset cfg g = g\<lparr>PLAYLIST_START := 1, PLAYLIST_END := NO_OF_SEARCH_RESULTS cfg\<rparr>"

text \<open>
  The numbering of the titles at the top of the loop (when \<open>download_images\<close> is false):
  every entry that is not \<open>null\<close> gets its position in front of its title.
\<close>

definition number_entry :: "nat \<Rightarrow> nat \<Rightarrow> entry \<Rightarrow> entry" where
  "number_entry len i e =
     (let num = str_nat (i + 1);
          num = (if len < 10 \<and> length num < 2 then ''0'' @ num else num)
      in e\<lparr>title := num @ '' '' @ title e\<rparr>)"

definition number_titles :: "entry option list \<Rightarrow> entry option list" where
  "number_titles es = map (\<lambda>(i, e). map_option (number_entry (length es) i) e) (enumerate 0 es)"

definition titles_of :: "entry option list \<Rightarrow> string list" where
  "titles_of es = concat (map (\<lambda>e. case e of None \<Rightarrow> [] | Some v \<Rightarrow> [title v]) es)"

text \<open>
  \<open>download_preview_images\<close> writes the preview files of the page and may start
  \<open>curl\<close>; it stands here as one step, and the answer says whether an exception
  leaves it.
\<close>

definition download_preview_images :: "exn option \<Rightarrow> 'a globals_scheme \<Rightarrow> exn option \<times> 'a globals_scheme" where
  "download_preview_images answer g = (answer, log (File_step ''download_preview_images'') g)"

text \<open>
  The \<open>try\<close> block after the control selections: the number in front of the selected
  label, the entry at that position, its title without the number. \<open>ValueError\<close> and
  \<open>IndexError\<close> are caught (\<open>Inr None\<close>: the loop continues); subscripting a \<open>null\<close> entry
  raises \<open>TypeError\<close>, which is not.
\<close>

definition parse_selection :: "entry option list \<Rightarrow> string \<Rightarrow> exn + (int \<times> entry \<times> string) option" where
  "parse_selection entries selection =
     (case py_int (first_token selection) of
        None \<Rightarrow> Inr None
      | Some sel_id \<Rightarrow>
          (case py_index entries (sel_id - 1) of
             None \<Rightarrow> Inr None
           | Some None \<Rightarrow> Inl TypeError
           | Some (Some video) \<Rightarrow> Inr (Some (sel_id - 1, video, sub_number_prefix (title video)))))"

section \<open>The page menu of playlist\_explorer\<close>

text \<open>
  The options of the page menu and the selection made from them (yt-browser4 lines 610
  to 618, yt-browser2 lines 447 to 455). The two browsers differ in one option: only
  yt-browser4 offers \<open>Main Menu\<close>.
\<close>

definition select_video ::
  "config \<Rightarrow> bool \<Rightarrow> string list \<Rightarrow> selector_out \<Rightarrow> 'a globals_scheme
     \<Rightarrow> (exn + string) \<times> 'a globals_scheme" where
  "select_video cfg main_menu titles answer g =
     (let (selection, g) =
            (if ENABLE_PREVIEW cfg = ''true'' then
               launcher cfg (join nl titles @ nl @ ''Next'' @ nl @ ''Previous'' @ nl
                             @ CYAN cfg @ glyph @ RESET cfg @ ''  Back'' @ nl
                             @ (if main_menu then CYAN cfg @ glyph @ RESET cfg @ ''  Main Menu'' @ nl
                                else [])
                             @ RED cfg @ glyph @ RESET cfg @ ''  Exit'')
                 ''select video'' (Some ''video'') answer g
             else
               launcher cfg (join nl (titles @ [''Next'', ''Previous'', ''Back'']
                                      @ (if main_menu then [''Main Menu''] else []) @ [''Exit'']))
                 ''select video'' None answer g)
      in case selection of
           Inl x \<Rightarrow> (Inl x, g)
         | Inr selection \<Rightarrow> (Inr (sub_label_prefix selection), log Clear g))"

text \<open>
  The first half of one pass of the page loop, the same in both browsers: the titles
  are numbered, the previews are made, the menu is shown. It gives the selection, the
  entries with their titles as they now are, and \<open>download_images\<close>.
\<close>

definition render ::
  "config \<Rightarrow> bool \<Rightarrow> 'a globals_scheme \<Rightarrow> search_results \<Rightarrow> bool \<Rightarrow> selector_out \<Rightarrow> exn option
     \<Rightarrow> (exn + string \<times> entry option list \<times> bool) \<times> 'a globals_scheme" where
  "render cfg main_menu g results images answer previews =
     (let es = (if \<not> images then number_titles (get_entries results) else get_entries results);
          titles = titles_of es;
          (raised, g, images) =
            (if ENABLE_PREVIEW cfg = ''true'' \<and> PREFERRED_SELECTOR cfg = ''fzf'' \<and> \<not> images
             then (case download_preview_images previews g of (x, g) \<Rightarrow> (x, g, True))
             else (None, g, images))
      in case raised of
           Some x \<Rightarrow> (Inl x, g)
         | None \<Rightarrow>
             (case select_video cfg main_menu titles answer g of
                (Inl x, g) \<Rightarrow> (Inl x, g)
              | (Inr selection, g) \<Rightarrow> (Inr (selection, es, images), g)))"

section \<open>yt-browser2: playlist\_explorer\<close>

text \<open>
  One pass through the body of a loop either goes on to the next pass with the loop's
  state, leaves the loop with it (\<open>break\<close>), or ends the function.
\<close>

datatype ('g, 's) flow = Again 's | Leave 's | Stop "'g outcome"

text \<open>\<open>byebye\<close> of yt-browser2.\<close>

definition byebye2 :: "'a globals_scheme \<Rightarrow> 'a globals_scheme outcome" where
  "byebye2 g = Exited 0 (log (Stdout (''Have a good day'' @ nl)) (log Clear g))"

text \<open>The two assignments after the loop, and the return.\<close>

definition end_session :: "config \<Rightarrow> 'a globals_scheme \<Rightarrow> 'a globals_scheme outcome" where
  "end_session cfg g = Returned None (window_reset cfg g)"

text \<open>\<open>os.path.join\<close> of a directory and a relative path.\<close>

definition path_join :: "string \<Rightarrow> string \<Rightarrow> string" where
  "path_join a b = (if a = [] \<or> last a = CHR ''/'' then a @ b else a @ ''/'' @ b)"

text \<open>
  The local variables of \<open>playlist_explorer\<close> that live while the menu of one item is
  open.
\<close>

record item2 =
  search_results :: search_results
  entries :: "entry option list"
  download_images :: bool
  current_index :: int
  video :: entry
  clean_title :: string

text \<open>The player command of the \<open>Watch\<close> action (lines 518 to 523).\<close>

definition player_cmd2 :: "config \<Rightarrow> bool \<Rightarrow> string \<Rightarrow> string \<Rightarrow> string list" where
  "player_cmd2 cfg audio_only vid_url title' =
     (let player_cmd = [PLAYER cfg, vid_url]
      in if PLAYER cfg = ''mpv'' then
           (if audio_only then player_cmd @ [''--no-video'', ''--force-window=no''] else player_cmd)
         else if PLAYER cfg = ''vlc'' then
           (let player_cmd = player_cmd @ [''--video-title'', title']
            in if audio_only then player_cmd @ [''--no-video''] else player_cmd)
         else player_cmd)"

text \<open>
  The answers one pass of the autoplay loop may ask for: the blocking run of the
  player, and the fetch of the next page.
\<close>

datatype autoplay_env = Autoplay_env spawn fetch_result

text \<open>
  The part of the autoplay loop after the player has returned (lines 530 to 546): the
  next entry, on the next page when the list is at its end.
\<close>

definition prepare_next2 ::
  "config \<Rightarrow> string \<Rightarrow> fetch_result \<Rightarrow> globals2 \<Rightarrow> item2 \<Rightarrow> (globals2, globals2 \<times> item2) flow" where
  "prepare_next2 cfg url' answer g it =
     (let it = it\<lparr>current_index := current_index it + 1\<rparr>;
          turned =
            (if current_index it \<ge> int (length (entries it)) then
               (let g = log (Stdout (''End of current list. Fetching next page...'' @ nl)) g;
                    g = window_next cfg g
                in case run_yt_dlp cfg url' [] answer g of
                     (Inl x, g) \<Rightarrow> Stop (Raised x g)
                   | (Inr r, g) \<Rightarrow>
                       if no_entries r then Leave (g, it\<lparr>search_results := r\<rparr>)
                       else Again (g, it\<lparr>search_results := r, entries := get_entries r,
                                          current_index := 0, download_images := False\<rparr>))
             else Again (g, it))
      in case turned of
           Again (g, it) \<Rightarrow>
             if current_index it < int (length (entries it)) then
               (case py_index (entries it) (current_index it) of
                  None \<Rightarrow> Stop (Raised IndexError g)
                | Some None \<Rightarrow> Stop (Raised AttributeError g)
                | Some (Some v) \<Rightarrow>
                    Again (g, it\<lparr>video := v, clean_title := sub_number_prefix (title v)\<rparr>))
             else Leave (g, it)
         | other \<Rightarrow> other)"

text \<open>
  The \<open>while True\<close> of the \<open>Watch\<close> action. With autoplay each pass runs the player and
  waits for it; without, the player is started in a session of its own and the loop
  is left at once.
\<close>

fun watch2 ::
  "config \<Rightarrow> string \<Rightarrow> globals2 \<Rightarrow> item2 \<Rightarrow> spawn \<Rightarrow> autoplay_env list
     \<Rightarrow> globals2 outcome + globals2 \<times> item2" where
  "watch2 cfg url' g it started envs =
     (let g = log (Stdout (MAGENTA cfg @ ''Now playing:'' @ RESET cfg @ '' '' @ clean_title it @ nl)) g;
          player_cmd = player_cmd2 cfg (AUDIO_ONLY_MODE g) (url (video it)) (clean_title it)
      in if AUTOPLAY_MODE g then
           (case envs of
              [] \<Rightarrow> Inl (Blocked g)
            | Autoplay_env played answer # rest \<Rightarrow>
                let g = log (Subprocess_run player_cmd) g
                in if played = Not_found then Inl (Raised FileNotFoundError g)
                   else (case prepare_next2 cfg url' answer g it of
                           Again (g, it) \<Rightarrow> watch2 cfg url' g it started rest
                         | Leave s \<Rightarrow> Inr s
                         | Stop out \<Rightarrow> Inl out))
         else
           (let g = log (Popen player_cmd True) g
            in if started = Not_found then Inl (Raised FileNotFoundError g) else Inr (g, it)))"

text \<open>The \<open>Download\<close> action (lines 552 to 560).\<close>

definition download2 :: "config \<Rightarrow> spawn \<Rightarrow> globals2 \<Rightarrow> item2 \<Rightarrow> (globals2, globals2 \<times> item2) flow" where
  "download2 cfg started g it =
     (let folder = (if AUDIO_ONLY_MODE g then ''audio'' else ''videos'');
          ext_args = (if AUDIO_ONLY_MODE g
                      then [''-x'', ''-f'', ''bestaudio'', ''--audio-format'', ''mp3''] else []);
          out_tmpl = path_join (DOWNLOAD_DIRECTORY cfg)
                       (folder @ ''/individual/%(channel)s/%(title)s.%(ext)s'');
          cmd = [''yt-dlp'', url (video it), ''--output'', out_tmpl] @ ext_args;
          cmd = (if PREFERRED_BROWSER cfg \<noteq> [] then cmd @ shlex_PREFERRED_BROWSER cfg else cmd);
          g = log (Popen cmd True) g
      in if started = Not_found then Stop (Raised FileNotFoundError g)
         else Again (send_notification (''Started downloading '' @ clean_title it) g, it))"

text \<open>
  The answers one pass of the item menu may ask for: the selector, the start of a
  player or of the download, and the passes of the autoplay loop.
\<close>

datatype action_env2 = Action_env2 selector_out spawn "autoplay_env list"

definition media_actions2 :: "config \<Rightarrow> globals2 \<Rightarrow> string list" where
  "media_actions2 cfg g =
     (let audio_state = (if AUDIO_ONLY_MODE g then CYAN cfg @ ''[x]'' @ RESET cfg else ''[ ]'');
          autoplay_state = (if AUTOPLAY_MODE g then CYAN cfg @ ''[x]'' @ RESET cfg else ''[ ]'')
      in [CYAN cfg @ glyph @ RESET cfg @ ''  Watch'',
          CYAN cfg @ glyph @ RESET cfg @ ''  Toggle Audio Only '' @ audio_state,
          CYAN cfg @ glyph @ RESET cfg @ ''  Toggle Autoplay '' @ autoplay_state,
          CYAN cfg @ glyph @ RESET cfg @ ''  Download'',
          CYAN cfg @ glyph @ RESET cfg @ ''  Back'',
          RED cfg @ glyph @ RESET cfg @ ''  Exit''])"

text \<open>One pass of the item menu (lines 484 to 560).\<close>

definition item_step2 ::
  "config \<Rightarrow> string \<Rightarrow> globals2 \<Rightarrow> item2 \<Rightarrow> action_env2 \<Rightarrow> (globals2, globals2 \<times> item2) flow" where
  "item_step2 cfg url' g it env =
     (case env of Action_env2 answer started autoplay \<Rightarrow>
        (case launcher cfg (join nl (media_actions2 cfg g)) ''Select Media Action'' None answer g of
           (Inl x, g) \<Rightarrow> Stop (Raised x g)
         | (Inr action_sel, g) \<Rightarrow>
             let action_sel = sub_icon action_sel;
                 g = log Clear g
             in if action_sel = ''Exit'' then Stop (byebye2 g)
                else if action_sel \<in> set [''Back'', []] then Leave (g, it)
                else if contains action_sel ''Toggle Audio Only''
                  then Again (g\<lparr>AUDIO_ONLY_MODE := \<not> AUDIO_ONLY_MODE g\<rparr>, it)
                else if contains action_sel ''Toggle Autoplay''
                  then Again (g\<lparr>AUTOPLAY_MODE := \<not> AUTOPLAY_MODE g\<rparr>, it)
                else if action_sel = ''Watch'' then
                  (case watch2 cfg url' g it started autoplay of
                     Inl out \<Rightarrow> Stop out
                   | Inr s \<Rightarrow> Again s)
                else if action_sel = ''Download'' then download2 cfg started g it
                else Again (g, it)))"

text \<open>The \<open>while True\<close> of the item menu.\<close>

fun item_menu2 ::
  "config \<Rightarrow> string \<Rightarrow> globals2 \<Rightarrow> item2 \<Rightarrow> action_env2 list \<Rightarrow> globals2 outcome + globals2 \<times> item2" where
  "item_menu2 cfg url' g it [] = Inl (Blocked g)"
| "item_menu2 cfg url' g it (env # rest) =
     (case item_step2 cfg url' g it env of
        Again (g, it) \<Rightarrow> item_menu2 cfg url' g it rest
      | Leave s \<Rightarrow> Inr s
      | Stop out \<Rightarrow> Inl out)"

text \<open>
  The answers one pass of the page loop may ask for: the selector, the preview step,
  the fetch of another page, and the passes of the item menu.
\<close>

datatype listing_env2 = Listing_env2 selector_out "exn option" fetch_result "action_env2 list"

text \<open>
  One pass of the page loop, after the test at its top (lines 429 to 560). The state
  that goes round the loop is the global state, \<open>search_results\<close> and \<open>download_images\<close>.
\<close>

definition listing_step2 ::
  "config \<Rightarrow> string \<Rightarrow> globals2 \<Rightarrow> search_results \<Rightarrow> bool \<Rightarrow> listing_env2
     \<Rightarrow> (globals2, globals2 \<times> search_results \<times> bool) flow" where
  "listing_step2 cfg url' g results images env =
     (case env of Listing_env2 answer previews fetch actions \<Rightarrow>
        (case render cfg False g results images answer previews of
           (Inl x, g) \<Rightarrow> Stop (Raised x g)
         | (Inr (selection, es, images), g) \<Rightarrow>
             let results = Dict (Some es)
             in if selection = ''Next'' then
                  (case run_yt_dlp cfg url' [] fetch (window_next cfg g) of
                     (Inl x, g) \<Rightarrow> Stop (Raised x g)
                   | (Inr r, g) \<Rightarrow> Again (g, r, False))
                else if selection = ''Previous'' then
                  (case run_yt_dlp cfg url' [] fetch (window_previous2 cfg g) of
                     (Inl x, g) \<Rightarrow> Stop (Raised x g)
                   | (Inr r, g) \<Rightarrow> Again (g, r, False))
                else if selection \<in> set [''Back'', [], ''Exit''] then
                  (if selection = ''Exit'' then Stop (byebye2 g) else Leave (g, results, images))
                else
                  (case parse_selection es selection of
                     Inl x \<Rightarrow> Stop (Raised x g)
                   | Inr None \<Rightarrow> Again (g, results, images)
                   | Inr (Some (index, v, title')) \<Rightarrow>
                       (case item_menu2 cfg url' g
                               \<lparr>search_results = results, entries = es, download_images = images,
                                current_index = index, video = v, clean_title = title'\<rparr> actions of
                          Inl out \<Rightarrow> Stop out
                        | Inr (g, it) \<Rightarrow> Again (g, search_results it, download_images it)))))"

text \<open>
  \<open>playlist_explorer(search_results, url)\<close> of yt-browser2, on the script of answers of
  the outside world: one element for each pass of the page loop.
\<close>

fun playlist_explorer2 ::
  "config \<Rightarrow> string \<Rightarrow> globals2 \<Rightarrow> search_results \<Rightarrow> bool \<Rightarrow> listing_env2 list \<Rightarrow> globals2 outcome" where
  "playlist_explorer2 cfg url' g results images envs =
     (if no_entries results then end_session cfg g
      else (case envs of
              [] \<Rightarrow> Blocked g
            | env # rest \<Rightarrow>
                (case listing_step2 cfg url' g results images env of
                   Again (g, results, images) \<Rightarrow> playlist_explorer2 cfg url' g results images rest
                 | Leave (g, results, images) \<Rightarrow> end_session cfg g
                 | Stop out \<Rightarrow> out)))"

section \<open>yt-browser4: playlist\_explorer\<close>

text \<open>\<open>byebye\<close> of yt-browser4.\<close>

definition byebye4 :: "config \<Rightarrow> 'a globals_scheme \<Rightarrow> 'a globals_scheme outcome" where
  "byebye4 cfg g = Exited 0 (log (Stdout (''Have a good day '' @ USER cfg @ nl)) (log Clear g))"





text \<open>
  The answers of the outside world to one pass of the item menu, one for each kind of
  call an action makes: whether the cached mix playlist exists and is not empty, the
  fetch of \<open>run_yt_dlp\<close>, the run of \<open>yt-dlp --get-url\<close> (its standard output), the
  start of a player, download, browser or shell, the file step of the action, and the
  first of \<open>open\<close> and \<open>xdg-open\<close> that \<open>shutil.which\<close> finds.
\<close>

datatype run_result = Run_not_found | Run_stdout string

datatype answers4 =
  Answers4 (cached: bool) (fetched: fetch_result) (resolved: run_result) (started: spawn)
    (filed: "exn option") (opener: "string option")












text \<open>
  One pass of the page loop, after the test at its top and up to the item menu (lines
  590 to 643). The state that goes round the loop is the global state,
  \<open>search_results\<close> and \<open>download_images\<close>; the selection of an item hands back the entry
  and its clean title as well.
\<close>

datatype listing4_result =
    L_flow "(globals, globals \<times> search_results \<times> bool) flow"
  | L_item globals search_results bool entry string

definition listing_step4 ::
  "config \<Rightarrow> string \<Rightarrow> globals \<Rightarrow> search_results \<Rightarrow> bool \<Rightarrow> selector_out \<Rightarrow> exn option
     \<Rightarrow> fetch_result \<Rightarrow> listing4_result" where
  "listing_step4 cfg url' g results images answer previews fetch =
     (case render cfg True g results images answer previews of
        (Inl x, g) \<Rightarrow> L_flow (Stop (Raised x g))
      | (Inr (selection, es, images), g) \<Rightarrow>
          let results = Dict (Some es)
          in if selection = ''Next'' then
               (case run_yt_dlp cfg url' [] fetch (window_next cfg g) of
                  (Inl x, g) \<Rightarrow> L_flow (Stop (Raised x g))
                | (Inr r, g) \<Rightarrow> L_flow (Again (g, r, False)))
             else if selection = ''Previous'' then
               (case run_yt_dlp cfg url' [] fetch (window_previous4 cfg g) of
                  (Inl x, g) \<Rightarrow> L_flow (Stop (Raised x g))
                | (Inr r, g) \<Rightarrow> L_flow (Again (g, r, False)))
             else if selection = ''Main Menu'' then L_flow (Stop (Returned (Some ''Main Menu'') g))
             else if selection \<in> set [''Back'', [], ''Exit''] then
               (if selection = ''Exit'' then L_flow (Stop (byebye4 cfg g))
                else L_flow (Leave (g, results, images)))
             else
               (case parse_selection es selection of
                  Inl x \<Rightarrow> L_flow (Stop (Raised x g))
                | Inr None \<Rightarrow> L_flow (Again (g, results, images))
                | Inr (Some (index, v, title')) \<Rightarrow> L_item g results images v title'))"


section \<open>Reading a trace\<close>

text \<open>The commands run with \<open>subprocess.run\<close>, in order.\<close>

definition runs :: "event list \<Rightarrow> string list list" where
  "runs evs = concat (map (\<lambda>e. case e of Subprocess_run cmd \<Rightarrow> [cmd] | _ \<Rightarrow> []) evs)"

text \<open>
  The number of notifications shown: \<open>send_notification\<close> is the only step that sleeps.
\<close>

definition notifications :: "event list \<Rightarrow> nat" where
  "notifications evs = length (filter (\<lambda>e. e = Sleep) evs)"

text \<open>The events of the call of the metadata tool in \<open>run_yt_dlp\<close>.\<close>

definition loading :: "config \<Rightarrow> string list \<Rightarrow> event list" where
  "loading cfg cmd =
     (if which_gum cfg then [Subprocess_run ([''gum'', ''spin'', ''--show-output'', ''--''] @ cmd)]
      else [Stderr (''Loading...'' @ nl), Subprocess_run cmd])"

section \<open>Example configurations, pages and states\<close>

text \<open>
  The default configuration (fzf, no preview, mpv, pages of 30), the same with rofi as
  selector, and with a player other than mpv and vlc.
\<close>

definition example_config :: config where
  "example_config =
     \<lparr>PREFERRED_SELECTOR = ''fzf'', ENABLE_PREVIEW = ''false'', PLAYER = ''mpv'',
      PREFERRED_BROWSER = [], shlex_PREFERRED_BROWSER = [], NO_OF_SEARCH_RESULTS = 30,
      ROFI_THEME = Some [], DISOWN_STREAMING_PROCESS = ''true'', VIDEO_QUALITY = ''1080'',
      DOWNLOAD_DIRECTORY = ''/home/u/Videos/yt-browser'', UPDATE_RECENT = ''true'',
      PLATFORM = ''linux'', USER = ''u'', which_gum = False, CLI_HEADER = ''YT-X'',
      CLI_NAME = ''yt-browser'',
      CLI_PREVIEW_DISPATCHER = ''/home/u/.config/yt-browser/yt-x-preview.sh'',
      CLI_AUTO_GEN_PLAYLISTS = ''/home/u/.cache/yt-browser/playlists'', SHELL = ''/bin/bash'',
      generate_sha256 = (\<lambda>s. ''0''),
      CYAN = [], RED = [], MAGENTA = [], RESET = []\<rparr>"



definition example_page :: search_results where
  "example_page =
     Dict (Some [Some \<lparr>title = ''A'', url = ''https://y/a'', video_id = ''a''\<rparr>,
                 Some \<lparr>title = ''B'', url = ''https://y/b'', video_id = ''b''\<rparr>])"

text \<open>The global state on the first and on the second page, before any effect.\<close>

definition first_page :: globals where
  "first_page = \<lparr>PLAYLIST_START = 1, PLAYLIST_END = 30, trace = []\<rparr>"


definition second_page2 :: globals2 where
  "second_page2 =
     \<lparr>PLAYLIST_START = 31, PLAYLIST_END = 60, trace = [],
      AUDIO_ONLY_MODE = False, AUTOPLAY_MODE = False\<rparr>"

text \<open>The example page as the page loop shows it: every title with its number.\<close>

definition example_numbered :: "entry option list" where
  "example_numbered =
     [Some \<lparr>title = ''01 A'', url = ''https://y/a'', video_id = ''a''\<rparr>,
      Some \<lparr>title = ''02 B'', url = ''https://y/b'', video_id = ''b''\<rparr>]"


text \<open>
  A session of yt-browser2 on the second page: the second entry is selected, the audio
  toggle is set in its menu, then \<open>Back\<close> twice.
\<close>

definition example_toggle_session :: "globals2 outcome" where
  "example_toggle_session =
     playlist_explorer2 example_config ''U'' second_page2 example_page False
       [Listing_env2 (Selector_stdout (''02 B'' @ nl)) None Fetch_not_found
          [Action_env2 (Selector_stdout (glyph @ ''  Toggle Audio Only [ ]'' @ nl)) Spawned [],
           Action_env2 (Selector_stdout (glyph @ ''  Back'' @ nl)) Spawned []],
        Listing_env2 (Selector_stdout (''Back'' @ nl)) None Fetch_not_found []]"



text \<open>A pass of the page loop of yt-browser2 whose script holds no pass of an item menu.\<close>

definition no_item_menu :: "listing_env2 \<Rightarrow> bool" where
  "no_item_menu env = (case env of Listing_env2 answer previews fetch actions \<Rightarrow> actions = [])"

text \<open>
  A session of yt-browser2 with the audio toggle on at its start: \<open>Next\<close>, a page is
  fetched, then \<open>Back\<close>.
\<close>

definition example_page_turn_session :: "globals2 outcome" where
  "example_page_turn_session =
     playlist_explorer2 example_config ''U'' (second_page2\<lparr>AUDIO_ONLY_MODE := True\<rparr>)
       example_page False
       [Listing_env2 (Selector_stdout (''Next'' @ nl)) None (Fetch_done 0 (Parsed example_page)) [],
        Listing_env2 (Selector_stdout (''Back'' @ nl)) None Fetch_not_found []]"


section \<open>Properties\<close>

subsection \<open>Auxiliary facts\<close>

lemma log_fields [simp]:
  "PLAYLIST_START (log e g) = PLAYLIST_START g"
  "PLAYLIST_END (log e g) = PLAYLIST_END g"
  "trace (log e g) = trace g @ [e]"
  "globals.more (log e g) = globals.more g"
  by (simp_all add: log_def)

lemma send_notification_fields [simp]:
  "PLAYLIST_START (send_notification m g) = PLAYLIST_START g"
  "PLAYLIST_END (send_notification m g) = PLAYLIST_END g"
  "trace (send_notification m g) = trace g @ [Stderr (m @ nl), Sleep]"
  "globals.more (send_notification m g) = globals.more g"
  by (simp_all add: send_notification_def)

lemma runs_simps [simp]:
  "runs [] = []"
  "runs (xs @ ys) = runs xs @ runs ys"
  "runs (Subprocess_run cmd # xs) = cmd # runs xs"
  "runs (Stderr s # xs) = runs xs"
  "runs (Stdout s # xs) = runs xs"
  "runs (Sleep # xs) = runs xs"
  "runs (Clear # xs) = runs xs"
  "runs (Popen_communicate c i # xs) = runs xs"
  "runs (Popen c b # xs) = runs xs"
  "runs (File_step s # xs) = runs xs"
  by (simp_all add: runs_def)

lemma notifications_simps [simp]:
  "notifications [] = 0"
  "notifications (xs @ ys) = notifications xs + notifications ys"
  "notifications (Sleep # xs) = Suc (notifications xs)"
  "notifications (Subprocess_run cmd # xs) = notifications xs"
  "notifications (Stderr s # xs) = notifications xs"
  "notifications (Stdout s # xs) = notifications xs"
  "notifications (Clear # xs) = notifications xs"
  "notifications (Popen_communicate c i # xs) = notifications xs"
  "notifications (Popen c b # xs) = notifications xs"
  "notifications (File_step s # xs) = notifications xs"
  by (simp_all add: notifications_def)

lemma run_yt_dlp_window:
  "run_yt_dlp cfg u xs answer g = (r, g') \<Longrightarrow>
     PLAYLIST_START g' = PLAYLIST_START g \<and> PLAYLIST_END g' = PLAYLIST_END g
     \<and> globals.more g' = globals.more g"
  by (auto simp: run_yt_dlp_def Let_def split: fetch_result.splits payload.splits if_splits)

lemma run_yt_dlp_trace:
  "run_yt_dlp cfg u xs answer g = (r, g') \<Longrightarrow>
     trace g' = trace g @ loading cfg (yt_dlp_cmd cfg u xs g)
                @ (case answer of Fetch_done returncode out \<Rightarrow>
                     if returncode \<noteq> 0 then [Stderr (''Failed to fetch data : ('' @ nl), Sleep] else []
                   | Fetch_not_found \<Rightarrow> [])"
  by (auto simp: run_yt_dlp_def loading_def Let_def split: fetch_result.splits payload.splits if_splits)

lemma run_yt_dlp_result:
  "fst (run_yt_dlp cfg u xs answer g) =
     (case answer of
        Fetch_not_found \<Rightarrow> Inl FileNotFoundError
      | Fetch_done returncode out \<Rightarrow>
          if returncode \<noteq> 0 then Inr NoneResult
          else (case out of Parsed r \<Rightarrow> Inr r | Unparseable \<Rightarrow> Inr NoneResult))"
  by (auto simp: run_yt_dlp_def Let_def split: fetch_result.splits payload.splits if_splits)

lemma launcher_quiet:
  "launcher cfg options_str prompt_text preview_mode answer g = (r, g1) \<Longrightarrow>
     PLAYLIST_START g1 = PLAYLIST_START g \<and> PLAYLIST_END g1 = PLAYLIST_END g
     \<and> globals.more g1 = globals.more g
     \<and> runs (trace g1) = runs (trace g) \<and> notifications (trace g1) = notifications (trace g)"
  by (auto simp: launcher_def Let_def split: if_splits option.splits selector_out.splits)

lemma select_video_quiet:
  "select_video cfg main_menu titles answer g = (r, g1) \<Longrightarrow>
     PLAYLIST_START g1 = PLAYLIST_START g \<and> PLAYLIST_END g1 = PLAYLIST_END g
     \<and> globals.more g1 = globals.more g
     \<and> runs (trace g1) = runs (trace g) \<and> notifications (trace g1) = notifications (trace g)"
  by (auto simp: select_video_def Let_def split: if_splits prod.splits sum.splits dest!: launcher_quiet)

lemma render_quiet:
  "render cfg main_menu g results images answer previews = (r, g1) \<Longrightarrow>
     PLAYLIST_START g1 = PLAYLIST_START g \<and> PLAYLIST_END g1 = PLAYLIST_END g
     \<and> globals.more g1 = globals.more g
     \<and> runs (trace g1) = runs (trace g) \<and> notifications (trace g1) = notifications (trace g)"
  by (auto simp: render_def Let_def download_preview_images_def
           split: if_splits prod.splits sum.splits option.splits dest!: select_video_quiet)



lemma step4_next:
  "render cfg True g results images answer previews = (Inr (''Next'', es, images'), g1) \<Longrightarrow>
   listing_step4 cfg u g results images answer previews fetch =
     (case run_yt_dlp cfg u [] fetch (window_next cfg g1) of
        (Inl x, g') \<Rightarrow> L_flow (Stop (Raised x g'))
      | (Inr r, g') \<Rightarrow> L_flow (Again (g', r, False)))"
  by (simp add: listing_step4_def)

lemma step4_previous:
  "render cfg True g results images answer previews = (Inr (''Previous'', es, images'), g1) \<Longrightarrow>
   listing_step4 cfg u g results images answer previews fetch =
     (case run_yt_dlp cfg u [] fetch (window_previous4 cfg g1) of
        (Inl x, g') \<Rightarrow> L_flow (Stop (Raised x g'))
      | (Inr r, g') \<Rightarrow> L_flow (Again (g', r, False)))"
  by (simp add: listing_step4_def)


lemma step4_back:
  "render cfg True g results images answer previews = (Inr (''Back'', es, images'), g1) \<Longrightarrow>
   listing_step4 cfg u g results images answer previews fetch = L_flow (Leave (g1, Dict (Some es), images'))"
  by (simp add: listing_step4_def)



lemma window_fields [simp]:
  "trace (window_next cfg g) = trace g"
  "trace (window_previous4 cfg g) = trace g"
  "trace (window_previous2 cfg g) = trace g"
  "trace (window_reset cfg g) = trace g"
  "globals.more (window_next cfg g) = globals.more g"
  "globals.more (window_previous4 cfg g) = globals.more g"
  "globals.more (window_previous2 cfg g) = globals.more g"
  "globals.more (window_reset cfg g) = globals.more g"
  "PLAYLIST_START (window_reset cfg g) = 1"
  "PLAYLIST_END (window_reset cfg g) = NO_OF_SEARCH_RESULTS cfg"
  "PLAYLIST_START (window_next cfg g) = PLAYLIST_START g + NO_OF_SEARCH_RESULTS cfg"
  "PLAYLIST_END (window_next cfg g) = PLAYLIST_END g + NO_OF_SEARCH_RESULTS cfg"
  by (simp_all add: window_next_def window_previous4_def window_previous2_def window_reset_def Let_def)

lemma no_entries_None [simp]: "no_entries NoneResult"
  by (simp add: no_entries_def)

lemma explorer2_pass:
  "\<not> no_entries results \<Longrightarrow>
   playlist_explorer2 cfg u g results images (env # rest) =
     (case listing_step2 cfg u g results images env of
        Again (g, results, images) \<Rightarrow> playlist_explorer2 cfg u g results images rest
      | Leave (g, results, images) \<Rightarrow> end_session cfg g
      | Stop out \<Rightarrow> out)"
  by simp

lemma explorer2_no_entries:
  "no_entries results \<Longrightarrow> playlist_explorer2 cfg u g results images envs = end_session cfg g"
  by simp

declare playlist_explorer2.simps [simp del]






lemma same_toggles:
  "globals.more (a :: 'a globals2_scheme) = globals.more b \<Longrightarrow>
     AUDIO_ONLY_MODE a = AUDIO_ONLY_MODE b \<and> AUTOPLAY_MODE a = AUTOPLAY_MODE b"
  by (cases a, cases b) simp


lemma str_int_31_60 [simp]: "str_int 31 = ''31''" "str_int 60 = ''60''"
  by (simp_all add: str_int_def str_nat.simps)

lemma toggles_simps [simp]:
  "AUDIO_ONLY_MODE (log e g) = AUDIO_ONLY_MODE g"
  "AUTOPLAY_MODE (log e g) = AUTOPLAY_MODE g"
  "AUDIO_ONLY_MODE (send_notification m g) = AUDIO_ONLY_MODE g"
  "AUTOPLAY_MODE (send_notification m g) = AUTOPLAY_MODE g"
  "AUDIO_ONLY_MODE (window_next cfg g) = AUDIO_ONLY_MODE g"
  "AUTOPLAY_MODE (window_next cfg g) = AUTOPLAY_MODE g"
  "AUDIO_ONLY_MODE (window_previous2 cfg g) = AUDIO_ONLY_MODE g"
  "AUTOPLAY_MODE (window_previous2 cfg g) = AUTOPLAY_MODE g"
  "AUDIO_ONLY_MODE (window_reset cfg g) = AUDIO_ONLY_MODE g"
  "AUTOPLAY_MODE (window_reset cfg g) = AUTOPLAY_MODE g"
  by (simp_all add: log_def send_notification_def window_next_def window_previous2_def
      window_reset_def Let_def)

lemma run_yt_dlp_toggles:
  "run_yt_dlp cfg u xs answer g = (r, g') \<Longrightarrow>
     AUDIO_ONLY_MODE g' = AUDIO_ONLY_MODE g \<and> AUTOPLAY_MODE g' = AUTOPLAY_MODE g"
  using run_yt_dlp_window [of cfg u xs answer g r g'] same_toggles [of g' g] by simp

lemma render_toggles:
  "render cfg main_menu g results images answer previews = (r, g') \<Longrightarrow>
     AUDIO_ONLY_MODE g' = AUDIO_ONLY_MODE g \<and> AUTOPLAY_MODE g' = AUTOPLAY_MODE g"
  using render_quiet [of cfg main_menu g results images answer previews r g'] same_toggles [of g' g]
  by simp



lemma prepare_next2_stop:
  "prepare_next2 cfg u answer g it = Stop out \<Longrightarrow> is_Raised out"
  by (auto simp: prepare_next2_def Let_def
      split: if_splits prod.splits sum.splits option.splits flow.splits)


lemma watch2_stop:
  "watch2 cfg u g it st envs = Inl out \<Longrightarrow> \<not> is_Returned out"
proof (induction envs arbitrary: g it)
  case Nil
  then show ?case by (auto simp: Let_def split: if_splits)
next
  case (Cons e envs)
  obtain played answer where e: "e = Autoplay_env played answer" by (cases e)
  show ?case
    using Cons.prems e Cons.IH
    by (auto simp: Let_def split: if_splits flow.splits prod.splits dest: prepare_next2_stop)
qed

declare watch2.simps [simp del]

lemma item_step2_stop:
  "item_step2 cfg u g it env = Stop out \<Longrightarrow> \<not> is_Returned out"
  by (cases env)
     (auto simp: item_step2_def Let_def byebye2_def download2_def
        split: if_splits prod.splits sum.splits dest: watch2_stop)

lemma item_menu2_stop:
  "item_menu2 cfg u g it envs = Inl out \<Longrightarrow> \<not> is_Returned out"
  by (induction envs arbitrary: g it)
     (auto split: flow.splits prod.splits dest: item_step2_stop)

lemma listing_step2_stop:
  "listing_step2 cfg u g results images env = Stop out \<Longrightarrow> \<not> is_Returned out"
  by (cases env)
     (auto simp: listing_step2_def Let_def byebye2_def
        split: if_splits prod.splits sum.splits option.splits dest: item_menu2_stop)

lemma listing_step2_toggles:
  assumes "listing_step2 cfg u g results images (Listing_env2 answer previews fetch []) = Again (g', r, i)
         \<or> listing_step2 cfg u g results images (Listing_env2 answer previews fetch []) = Leave (g', r, i)"
  shows "AUDIO_ONLY_MODE g' = AUDIO_ONLY_MODE g \<and> AUTOPLAY_MODE g' = AUTOPLAY_MODE g"
  using assms
  by (auto simp: listing_step2_def Let_def
        split: if_splits prod.splits sum.splits option.splits
        dest!: render_toggles run_yt_dlp_toggles)

lemma contains_label [simp]:
  "\<not> contains ''Exit'' ''Toggle Audio Only''"
  "\<not> contains ''Back'' ''Toggle Audio Only''"
  "\<not> contains [] ''Toggle Audio Only''"
  "\<not> contains ''Watch'' ''Toggle Audio Only''"
  "\<not> contains ''Watch'' ''Toggle Autoplay''"
  by (simp_all add: starts_with_def)

lemma sub_label_prefix_plain [simp]:
  "sub_label_prefix ''Exit'' = ''Exit''" "sub_label_prefix [] = []"
  by code_simp+









lemma pair_of_fst: "fst p = a \<Longrightarrow> p = (a, snd p)"
  by (simp add: prod_eq_iff)

subsection \<open>The claims\<close>




text \<open>
  C2 (both browsers, the \<open>Previous\<close> branch). For every window with
  \<open>PLAYLIST_START \<ge> 1\<close> and \<open>PLAYLIST_END > PLAYLIST_START\<close>, and every page size,
  \<open>Previous\<close> leaves both bounds positive; from the first page (start 1, end one page
  size) it leaves the global state as it is.
\<close>

theorem previous_keeps_bounds_positive:
  assumes "1 \<le> PLAYLIST_START g" and "PLAYLIST_START g < PLAYLIST_END g"
  shows "0 < PLAYLIST_START (window_previous4 cfg g) \<and> 0 < PLAYLIST_END (window_previous4 cfg g)
       \<and> 0 < PLAYLIST_START (window_previous2 cfg g) \<and> 0 < PLAYLIST_END (window_previous2 cfg g)
       \<and> (PLAYLIST_START g = 1 \<and> PLAYLIST_END g = NO_OF_SEARCH_RESULTS cfg
            \<longrightarrow> window_previous4 cfg g = g \<and> window_previous2 cfg g = g)"
  using assms by (auto simp: window_previous4_def window_previous2_def Let_def)

theorem previous_keeps_bounds_positive_witness:
  "1 \<le> PLAYLIST_START first_page \<and> PLAYLIST_START first_page < PLAYLIST_END first_page
   \<and> PLAYLIST_START first_page = 1 \<and> PLAYLIST_END first_page = NO_OF_SEARCH_RESULTS example_config
   \<and> window_previous4 example_config first_page = first_page
   \<and> window_previous2 example_config first_page = first_page
   \<and> 0 < PLAYLIST_START (window_previous4 example_config first_page)
   \<and> 0 < PLAYLIST_END (window_previous2 example_config first_page)"
  using previous_keeps_bounds_positive [of first_page example_config]
  by (simp add: first_page_def example_config_def)




text \<open>
  C4 (yt-browser4, the \<open>Next\<close> branch). From page size 30, start 1 and end 30, a pass
  of the page loop whose selection is \<open>Next\<close> sets the window to start 31 and end 60
  and runs the metadata tool exactly once: the commands run with \<open>subprocess.run\<close> grow
  by one, which carries \<open>--playlist-start 31 --playlist-end 60\<close> (behind \<open>gum spin\<close> when
  gum is installed, and before the browser arguments). The pass goes on with the
  fetched value, or the \<open>FileNotFoundError\<close> of a missing tool leaves it.
\<close>

theorem next_from_first_page:
  assumes "PLAYLIST_START g = 1" and "PLAYLIST_END g = 30" and "NO_OF_SEARCH_RESULTS cfg = 30"
    and "render cfg True g results images answer previews = (Inr (''Next'', es, images'), g1)"
  shows "\<exists>g' r. (listing_step4 cfg url' g results images answer previews fetch = L_flow (Again (g', r, False))
               \<or> listing_step4 cfg url' g results images answer previews fetch
                    = L_flow (Stop (Raised FileNotFoundError g')))
          \<and> PLAYLIST_START g' = 31 \<and> PLAYLIST_END g' = 60
          \<and> runs (trace g') = runs (trace g)
               @ [(if which_gum cfg then [''gum'', ''spin'', ''--show-output'', ''--''] else [])
                  @ [''yt-dlp'', url', ''-J'', ''--flat-playlist'', ''--extractor-args'',
                     ''youtubetab:approximate_date'', ''--playlist-start'', ''31'',
                     ''--playlist-end'', ''60'']
                  @ (if PREFERRED_BROWSER cfg \<noteq> [] then shlex_PREFERRED_BROWSER cfg else [])]"
proof -
  obtain r g2 where f: "run_yt_dlp cfg url' [] fetch (window_next cfg g1) = (r, g2)"
    by (cases "run_yt_dlp cfg url' [] fetch (window_next cfg g1)")
  have q: "PLAYLIST_START g1 = 1" "PLAYLIST_END g1 = 30" "runs (trace g1) = runs (trace g)"
    using render_quiet [OF assms(4)] assms(1,2) by simp_all
  have w: "PLAYLIST_START g2 = 31" "PLAYLIST_END g2 = 60"
    using run_yt_dlp_window [OF f] q assms(3) by simp_all
  have c: "yt_dlp_cmd cfg url' [] (window_next cfg g1)
           = [''yt-dlp'', url', ''-J'', ''--flat-playlist'', ''--extractor-args'',
              ''youtubetab:approximate_date'', ''--playlist-start'', ''31'', ''--playlist-end'', ''60'']
             @ (if PREFERRED_BROWSER cfg \<noteq> [] then shlex_PREFERRED_BROWSER cfg else [])"
    using q assms(3) by (simp add: yt_dlp_cmd_def)
  have t: "runs (trace g2) = runs (trace g)
             @ [(if which_gum cfg then [''gum'', ''spin'', ''--show-output'', ''--''] else [])
                @ yt_dlp_cmd cfg url' [] (window_next cfg g1)]"
    using run_yt_dlp_trace [OF f] q
    by (cases fetch) (simp_all add: loading_def)
  have s: "listing_step4 cfg url' g results images answer previews fetch
           = (case r of Inl x \<Rightarrow> L_flow (Stop (Raised x g2)) | Inr r' \<Rightarrow> L_flow (Again (g2, r', False)))"
    using step4_next [OF assms(4), of url' fetch] f by (simp split: sum.splits)
  have e: "r = Inl FileNotFoundError \<or> (\<exists>r'. r = Inr r')"
    using run_yt_dlp_result [of cfg url' "[]" fetch "window_next cfg g1"] f
    by (auto split: fetch_result.splits payload.splits if_splits)
  show ?thesis
    using e s w t c by (auto simp del: append.simps)
qed

theorem next_from_first_page_witness:
  "PLAYLIST_START first_page = 1 \<and> PLAYLIST_END first_page = 30
   \<and> NO_OF_SEARCH_RESULTS example_config = 30
   \<and> fst (render example_config True first_page example_page False (Selector_stdout (''Next'' @ nl)) None)
       = Inr (''Next'', example_numbered, False)
   \<and> (\<exists>g' r. (listing_step4 example_config ''U'' first_page example_page False
                  (Selector_stdout (''Next'' @ nl)) None (Fetch_done 0 (Parsed example_page))
                = L_flow (Again (g', r, False))
              \<or> listing_step4 example_config ''U'' first_page example_page False
                  (Selector_stdout (''Next'' @ nl)) None (Fetch_done 0 (Parsed example_page))
                = L_flow (Stop (Raised FileNotFoundError g')))
           \<and> PLAYLIST_START g' = 31 \<and> PLAYLIST_END g' = 60
           \<and> runs (trace g')
               = runs (trace first_page)
                 @ [(if which_gum example_config then [''gum'', ''spin'', ''--show-output'', ''--''] else [])
                    @ [''yt-dlp'', ''U'', ''-J'', ''--flat-playlist'', ''--extractor-args'',
                       ''youtubetab:approximate_date'', ''--playlist-start'', ''31'',
                       ''--playlist-end'', ''60'']
                    @ (if PREFERRED_BROWSER example_config \<noteq> []
                       then shlex_PREFERRED_BROWSER example_config else [])])"
proof -
  let ?r = "render example_config True first_page example_page False (Selector_stdout (''Next'' @ nl)) None"
  have f: "fst ?r = Inr (''Next'', example_numbered, False)"
    by code_simp
  have r: "?r = (Inr (''Next'', example_numbered, False), snd ?r)"
    using f by (rule pair_of_fst)
  have h: "PLAYLIST_START first_page = 1" "PLAYLIST_END first_page = 30"
      "NO_OF_SEARCH_RESULTS example_config = 30"
    by (simp_all add: first_page_def example_config_def)
  show ?thesis
    using next_from_first_page [OF h r, of "''U''" "Fetch_done 0 (Parsed example_page)"] f h
    by (intro conjI) assumption+
qed




text \<open>
  C6 (yt-browser2, the end of a session). The claim: when \<open>playlist_explorer\<close> returns,
  the window is back at start 1 and end one page size, and the toggles are back at
  false. The window is; the toggles are not: the two assignments after the loop are
  the only reset, and no statement of the script sets a toggle but the two toggle
  actions of the item menu. Whenever the session returns, it returns \<open>None\<close> with the
  window reset; and a session whose passes open no item menu (page transitions, then
  the return) returns with both toggles as they were at its start.
\<close>

theorem session_end_resets_window:
  assumes "playlist_explorer2 cfg url' g results images envs = Returned r g'"
  shows "r = None \<and> PLAYLIST_START g' = 1 \<and> PLAYLIST_END g' = NO_OF_SEARCH_RESULTS cfg
       \<and> (if list_all no_item_menu envs
          then AUDIO_ONLY_MODE g' = AUDIO_ONLY_MODE g \<and> AUTOPLAY_MODE g' = AUTOPLAY_MODE g
          else True)"
  using assms
proof (induction envs arbitrary: g results images)
  case Nil
  then show ?case
    by (auto simp: playlist_explorer2.simps [of _ _ _ _ _ "[]"] end_session_def split: if_splits)
next
  case (Cons env envs)
  show ?case
  proof (cases "no_entries results")
    case True
    with Cons.prems show ?thesis by (auto simp: explorer2_no_entries end_session_def)
  next
    case False
    note pass = explorer2_pass [OF False, of cfg url' g images env envs]
    show ?thesis
    proof (cases "listing_step2 cfg url' g results images env")
      case (Again s)
      obtain g1 r1 i1 where s: "s = (g1, r1, i1)" by (cases s)
      have run: "playlist_explorer2 cfg url' g1 r1 i1 envs = Returned r g'"
        using Cons.prems pass Again s by simp
      have ih: "r = None \<and> PLAYLIST_START g' = 1 \<and> PLAYLIST_END g' = NO_OF_SEARCH_RESULTS cfg
           \<and> (if list_all no_item_menu envs
              then AUDIO_ONLY_MODE g' = AUDIO_ONLY_MODE g1 \<and> AUTOPLAY_MODE g' = AUTOPLAY_MODE g1
              else True)"
        using Cons.IH [OF run] .
      have "AUDIO_ONLY_MODE g1 = AUDIO_ONLY_MODE g \<and> AUTOPLAY_MODE g1 = AUTOPLAY_MODE g"
        if nm: "no_item_menu env"
      proof -
        obtain answer previews fetch where "env = Listing_env2 answer previews fetch []"
          using nm by (cases env) (auto simp: no_item_menu_def)
        then show ?thesis
          using listing_step2_toggles [of cfg url' g results images answer previews fetch g1 r1 i1] Again s
          by simp
      qed
      with ih show ?thesis by simp
    next
      case (Leave s)
      obtain g1 r1 i1 where s: "s = (g1, r1, i1)" by (cases s)
      have e: "Returned r g' = end_session cfg g1"
        using Cons.prems pass Leave s by simp
      have "AUDIO_ONLY_MODE g1 = AUDIO_ONLY_MODE g \<and> AUTOPLAY_MODE g1 = AUTOPLAY_MODE g"
        if nm: "no_item_menu env"
      proof -
        obtain answer previews fetch where "env = Listing_env2 answer previews fetch []"
          using nm by (cases env) (auto simp: no_item_menu_def)
        then show ?thesis
          using listing_step2_toggles [of cfg url' g results images answer previews fetch g1 r1 i1] Leave s
          by simp
      qed
      with e show ?thesis by (auto simp: end_session_def)
    next
      case (Stop out)
      then have "out = Returned r g'" using Cons.prems pass by simp
      with listing_step2_stop [OF Stop] show ?thesis by simp
    qed
  qed
qed

theorem session_end_resets_window_witness:
  "example_page_turn_session = Returned None (final example_page_turn_session)
   \<and> PLAYLIST_START (final example_page_turn_session) = 1
   \<and> PLAYLIST_END (final example_page_turn_session) = NO_OF_SEARCH_RESULTS example_config
   \<and> AUDIO_ONLY_MODE (final example_page_turn_session)
   \<and> \<not> AUTOPLAY_MODE (final example_page_turn_session)"
proof -
  have e: "playlist_explorer2 example_config ''U'' (second_page2\<lparr>AUDIO_ONLY_MODE := True\<rparr>)
       example_page False
       [Listing_env2 (Selector_stdout (''Next'' @ nl)) None (Fetch_done 0 (Parsed example_page)) [],
        Listing_env2 (Selector_stdout (''Back'' @ nl)) None Fetch_not_found []]
       = Returned None (final example_page_turn_session)"
    by code_simp
  have l: "list_all no_item_menu
       [Listing_env2 (Selector_stdout (''Next'' @ nl)) None (Fetch_done 0 (Parsed example_page)) [],
        Listing_env2 (Selector_stdout (''Back'' @ nl)) None Fetch_not_found []]"
    by code_simp
  have s: "AUDIO_ONLY_MODE (second_page2\<lparr>AUDIO_ONLY_MODE := True\<rparr>)"
      "\<not> AUTOPLAY_MODE (second_page2\<lparr>AUDIO_ONLY_MODE := True\<rparr>)"
    by (simp_all add: second_page2_def)
  have d: "example_page_turn_session = Returned None (final example_page_turn_session)"
    using e by (simp only: example_page_turn_session_def [symmetric])
  show ?thesis
    using session_end_resets_window [OF e] l s d by (simp only: if_True simp_thms)
qed

theorem toggle_survives_session:
  "is_Returned example_toggle_session
   \<and> PLAYLIST_START (final example_toggle_session) = 1
   \<and> PLAYLIST_END (final example_toggle_session) = 30
   \<and> AUDIO_ONLY_MODE (final example_toggle_session)
   \<and> \<not> AUDIO_ONLY_MODE second_page2"
  by code_simp







text \<open>
  C9 (fibonacci.py). The claim: for every accepted input N the program prints the first
  N numbers of the sequence 0, 1, 1, 2, 3, 5, ... separated by commas and then reports
  the N-th number. At the input \<open>2\<close> the list the program prints is \<open>o, 1\<close>: its first
  element is the letter o, not the digit 0 that the branch for the input 1 prints. The
  number reported on the last line is the second number of the sequence.
\<close>

theorem fibonacci_prints_letter_o:
  "fibonacci [''2'', ''quit''] =
     Some (fib_prompt @ nl @ ''o, 1'' @ nl @ nl @ ''The #2 Fibonacci number is 1.'' @ nl
           @ fib_prompt @ ''Thanks for playing!'' @ nl, Quit)"
  by (simp add: isdecimal_def is_digit_def py_int_def py_strip_def is_space_def digit_val_def)



end
